theory Spec2Isabelle
  imports Complex_Main
begin

section \<open>Python strings and integers\<close>


definition digit_char :: "nat \<Rightarrow> char" where
  "digit_char d = ''0123456789'' ! d"

fun str_nat :: "nat \<Rightarrow> string" where
  "str_nat n = (if n < 10 then [digit_char n] else str_nat (n div 10) @ [digit_char (n mod 10)])"

declare str_nat.simps [simp del]

definition str_int :: "int \<Rightarrow> string" where
  "str_int i = (if i < 0 then CHR ''-'' # str_nat (nat (- i)) else str_nat (nat i))"

definition digit_val :: "char \<Rightarrow> nat" where
  "digit_val c = of_char c - 48"

definition nat_of_str :: "string \<Rightarrow> nat" where
  "nat_of_str s = foldl (\<lambda>acc c. 10 * acc + digit_val c) 0 s"

definition int_of_str :: "string \<Rightarrow> int" where
  "int_of_str s = (case s of
       [] \<Rightarrow> 0
     | c # cs \<Rightarrow> if c = CHR ''-'' then - int (nat_of_str cs) else int (nat_of_str s))"



section \<open>create\_labels.py\<close>










section \<open>Launch commands\<close>

text \<open>
  The argument parsers (\<^verbatim>\<open>argparse\<close> with \<^verbatim>\<open>type=int\<close>) hand the functions below integers;
  the records hold the parsed arguments.
\<close>

subsection \<open>camera\_pose\_detection.py\<close>

definition pose_detection_cmd :: "int \<Rightarrow> int \<Rightarrow> int \<Rightarrow> int \<Rightarrow> string \<Rightarrow> string list" where
  "pose_detection_cmd duration width height framerate model_path =
     [''rpicam-hello'',
      ''-t'', str_int duration @ ''s'',
      ''--post-process-file'', model_path,
      ''--viewfinder-width'', str_int width,
      ''--viewfinder-height'', str_int height,
      ''--framerate'', str_int framerate]"

subsection \<open>AI\_Camera\_Demo1.py\<close>

record IMX500Camera =
  model_file :: string
  cam_width :: int
  cam_height :: int
  cam_framerate :: int

definition imx500_start_cmd :: "IMX500Camera \<Rightarrow> string \<Rightarrow> string list" where
  "imx500_start_cmd self timeout =
     [''rpicam-hello'',
      ''-t'', timeout,
      ''--post-process-file'', model_file self,
      ''--viewfinder-width'', str_int (cam_width self),
      ''--viewfinder-height'', str_int (cam_height self),
      ''--framerate'', str_int (cam_framerate self)]"

subsection \<open>QRReader.py\<close>

record qr_args =
  arg_width :: int
  arg_height :: int
  arg_framerate :: int

record QRCodeReaderGUI =
  qr_width :: int
  qr_height :: int
  qr_framerate :: int
  temp_file :: string

text \<open>\<open>qr_main\<close> is \<^verbatim>\<open>main\<close> up to the construction of the reader; \<open>tmp\<close> is the path of
  the frame file in the temporary directory the constructor creates.\<close>

definition qr_main :: "string \<Rightarrow> qr_args \<Rightarrow> QRCodeReaderGUI" where
  "qr_main tmp args =
     (let framerate = max 1 (min 10 (arg_framerate args))
      in \<lparr>qr_width = arg_width args, qr_height = arg_height args,
          qr_framerate = framerate, temp_file = tmp\<rparr>)"

definition capture_cmd :: "QRCodeReaderGUI \<Rightarrow> string list" where
  "capture_cmd self =
     [''libcamera-still'',
      ''--width'', str_int (qr_width self),
      ''--height'', str_int (qr_height self),
      ''--output'', temp_file self,
      ''--immediate'',
      ''--nopreview'',
      ''--timeout'', ''1'']"

section \<open>AIvisionProgram.py: object detection post-processing\<close>

text \<open>
  A tensor element is a floating-point number: a finite value, an infinity or NaN.
  Finite values are real numbers here; the rounding of the one arithmetic operation the
  function performs, the product of a coordinate and an image dimension, is left open by
  taking the multiplication as a parameter \<open>mul\<close>. Comparisons with NaN are false, and
  \<^verbatim>\<open>max(a, b)\<close> and \<^verbatim>\<open>min(a, b)\<close> return \<open>b\<close> only if it compares greater or less than
  \<open>a\<close>. \<^verbatim>\<open>int(x)\<close> truncates towards zero and raises on an infinity or NaN.
  The \<^verbatim>\<open>print\<close> of each detection is not part of the model.
\<close>

datatype pyfloat = Fin real | PInf | NInf | NaN

datatype pyerr = IndexError | ValueError | OverflowError

fun py_lt :: "pyfloat \<Rightarrow> pyfloat \<Rightarrow> bool" where
  "py_lt NaN _ = False"
| "py_lt _ NaN = False"
| "py_lt (Fin a) (Fin b) = (a < b)"
| "py_lt _ NInf = False"
| "py_lt NInf _ = True"
| "py_lt PInf _ = False"
| "py_lt (Fin a) PInf = True"

definition py_ge :: "pyfloat \<Rightarrow> pyfloat \<Rightarrow> bool" where
  "py_ge a b = (a \<noteq> NaN \<and> b \<noteq> NaN \<and> \<not> py_lt a b)"

definition py_max :: "pyfloat \<Rightarrow> pyfloat \<Rightarrow> pyfloat" where
  "py_max a b = (if py_lt a b then b else a)"

definition py_min :: "pyfloat \<Rightarrow> pyfloat \<Rightarrow> pyfloat" where
  "py_min a b = (if py_lt b a then b else a)"

fun py_int :: "pyfloat \<Rightarrow> pyerr + int" where
  "py_int (Fin x) = Inr (if 0 \<le> x then \<lfloor>x\<rfloor> else \<lceil>x\<rceil>)"
| "py_int PInf = Inl OverflowError"
| "py_int NInf = Inl OverflowError"
| "py_int NaN = Inl ValueError"

definition of_pyint :: "int \<Rightarrow> pyfloat" where
  "of_pyint n = Fin (of_int n)"

definition ebind :: "'e + 'a \<Rightarrow> ('a \<Rightarrow> 'e + 'b) \<Rightarrow> 'e + 'b" where
  "ebind m f = (case m of Inl e \<Rightarrow> Inl e | Inr x \<Rightarrow> f x)"

definition subscript :: "'a list \<Rightarrow> nat \<Rightarrow> pyerr + 'a" where
  "subscript xs n = (if n < length xs then Inr (xs ! n) else Inl IndexError)"

text \<open>The label of a class: \<^verbatim>\<open>self.labels[class_id]\<close> with Python's negative indices when
  \<^verbatim>\<open>class_id < len(self.labels)\<close>, a generic name otherwise.\<close>

definition label_of :: "string list \<Rightarrow> int \<Rightarrow> pyerr + string" where
  "label_of labels class_id =
     (if class_id < int (length labels)
      then (if 0 \<le> class_id then Inr (labels ! nat class_id)
            else if - int (length labels) \<le> class_id
            then Inr (labels ! nat (int (length labels) + class_id))
            else Inl IndexError)
      else Inr (''Class '' @ str_int class_id))"

type_synonym detection = "string \<times> pyfloat \<times> (int \<times> int \<times> int \<times> int)"

text \<open>One iteration of the loop on row \<open>i\<close>: \<open>None\<close> is \<^verbatim>\<open>continue\<close>.\<close>

definition detect_row ::
  "(pyfloat \<Rightarrow> int \<Rightarrow> pyfloat) \<Rightarrow> string list \<Rightarrow> int \<Rightarrow> int \<Rightarrow> pyfloat list
     \<Rightarrow> pyerr + detection option" where
  "detect_row mul labels img_width img_height row =
     ebind (subscript row 4) (\<lambda>score.
       if py_lt score (Fin 0.5) then Inr None
       else
         ebind (subscript row 5) (\<lambda>c.
         ebind (py_int c) (\<lambda>class_id.
         ebind (label_of labels class_id) (\<lambda>label.
         ebind (subscript row 0) (\<lambda>r0.
         ebind (py_int (py_max (of_pyint 1) (mul r0 img_height))) (\<lambda>ymin.
         ebind (subscript row 1) (\<lambda>r1.
         ebind (py_int (py_max (of_pyint 1) (mul r1 img_width))) (\<lambda>xmin.
         ebind (subscript row 2) (\<lambda>r2.
         ebind (py_int (py_min (of_pyint img_height) (mul r2 img_height))) (\<lambda>ymax.
         ebind (subscript row 3) (\<lambda>r3.
         ebind (py_int (py_min (of_pyint img_width) (mul r3 img_width))) (\<lambda>xmax.
           Inr (Some (label, score, (xmin, ymin, xmax, ymax)))))))))))))))"

fun detection_loop ::
  "(pyfloat \<Rightarrow> int \<Rightarrow> pyfloat) \<Rightarrow> string list \<Rightarrow> int \<Rightarrow> int \<Rightarrow> pyfloat list list
     \<Rightarrow> detection list \<Rightarrow> pyerr + detection list" where
  "detection_loop mul labels img_width img_height [] results = Inr results"
| "detection_loop mul labels img_width img_height (row # rows) results =
     (case detect_row mul labels img_width img_height row of
        Inl e \<Rightarrow> Inl e
      | Inr None \<Rightarrow> detection_loop mul labels img_width img_height rows results
      | Inr (Some d) \<Rightarrow> detection_loop mul labels img_width img_height rows (results @ [d]))"

definition process_object_detection ::
  "(pyfloat \<Rightarrow> int \<Rightarrow> pyfloat) \<Rightarrow> string list \<Rightarrow> pyfloat list list list \<Rightarrow> int \<Rightarrow> int
     \<Rightarrow> pyerr + detection list" where
  "process_object_detection mul labels output_data img_width img_height =
     ebind (subscript output_data 0) (\<lambda>rows.
       detection_loop mul labels img_width img_height rows [])"

text \<open>The multiplication of exact arithmetic, for evaluating the function on examples.\<close>

fun exact_mul :: "pyfloat \<Rightarrow> int \<Rightarrow> pyfloat" where
  "exact_mul (Fin x) n = Fin (x * of_int n)"
| "exact_mul NaN n = NaN"
| "exact_mul PInf n = (if 0 < n then PInf else if n < 0 then NInf else NaN)"
| "exact_mul NInf n = (if 0 < n then NInf else if n < 0 then PInf else NaN)"

text \<open>An example tensor: one detection above the threshold, one below it, and one at the
  threshold whose box lies partly outside the image.\<close>

definition example_output :: "pyfloat list list list" where
  "example_output =
     [[[Fin 0.1, Fin 0.2, Fin 0.5, Fin 0.9, Fin 0.7, Fin 1],
       [Fin 0.1, Fin 0.2, Fin 0.5, Fin 0.9, Fin 0.3, Fin 1],
       [Fin (-0.5), Fin 0.2, Fin 1.5, Fin (-0.1), Fin 0.5, Fin 7]]]"


section \<open>AIvisionGUI.py: the process supervisor\<close>

subsection \<open>Child processes\<close>

text \<open>
  The operating system keeps a table of the child processes the program has started; a
  process handle (a \<^verbatim>\<open>Popen\<close> object) is an index into it. \<open>returncode\<close> is what
  \<^verbatim>\<open>poll()\<close> reports: \<open>None\<close> while the child runs. \<open>signals\<close> records the signals sent to
  the child, \<open>unread\<close> the lines it has written to its output pipe that nobody has read yet.
  How a child reacts to \<^verbatim>\<open>SIGTERM\<close> belongs to the child: \<open>sigterm_exit\<close> is the exit status
  with which it ends within the two seconds \<^verbatim>\<open>wait(timeout=2)\<close> allows, or \<open>None\<close> if it is
  still running then. Delivery of \<^verbatim>\<open>SIGTERM\<close> is asynchronous: \<^verbatim>\<open>terminate()\<close> returns at once,
  and the child ends during a later wait or at a later step of its own. \<^verbatim>\<open>SIGKILL\<close> is
  taken to end the child at once, with status \<open>-9\<close>. Handles come from \<open>popen\<close> only, so a
  handle the program holds is an index of the table.
\<close>

type_synonym pid = nat

datatype signal = SIGTERM | SIGKILL

record proc =
  argv :: "string list"
  returncode :: "int option"
  signals :: "signal list"
  unread :: "string list"
  sigterm_exit :: "int option"

datatype thread = CameraThread | CameraWaiting pid | QRDrain | ModelAIDrain

datatype callback = CameraStopped | QRReaderStopped | ModelAIStopped

text \<open>What \<^verbatim>\<open>subprocess.Popen\<close> does: it starts a child (with the given reaction to
  \<^verbatim>\<open>SIGTERM\<close>) or raises an \<^verbatim>\<open>OSError\<close> with a message.\<close>

datatype popen_result = Spawned "int option" | OSError string

text \<open>
  The state of \<^verbatim>\<open>AIVisionGUI\<close>: the fields of the object, the texts of the widgets the
  methods configure, where \<^verbatim>\<open>sys.stdout\<close> points (\<open>stdout_redirected\<close>: at the console
  widget) and what has been written to the console and to the original standard output
  (\<open>terminal\<close>), the process table, the threads the object has started and that have not
  ended, and the callbacks queued with \<^verbatim>\<open>root.after\<close>.
\<close>

record gui =
  process :: "pid option"
  camera_running :: bool
  qr_reader_process :: "pid option"
  model_ai_process :: "pid option"
  model_ai_button :: string
  qr_button :: string
  start_button :: string
  status_label :: string
  console :: "string list"
  stdout_redirected :: bool
  terminal :: "string list"
  sys_executable :: string
  procs :: "proc list"
  threads :: "thread list"
  after_queue :: "callback list"
  destroyed :: bool

definition init :: "string \<Rightarrow> gui" where
  "init exe =
     \<lparr>process = None, camera_running = False, qr_reader_process = None,
      model_ai_process = None, model_ai_button = ''Model AI'', qr_button = ''QR Reader'',
      start_button = ''AI Vision'', status_label = ''Status: Ready'', console = [],
      stdout_redirected = False, terminal = [], sys_executable = exe, procs = [],
      threads = [], after_queue = [], destroyed = False\<rparr>"

definition print :: "string \<Rightarrow> gui \<Rightarrow> gui" where
  "print x s =
     (if stdout_redirected s then s\<lparr>console := console s @ [x]\<rparr>
      else s\<lparr>terminal := terminal s @ [x]\<rparr>)"

definition popen :: "string list \<Rightarrow> int option \<Rightarrow> gui \<Rightarrow> pid \<times> gui" where
  "popen cmd d s =
     (length (procs s),
      s\<lparr>procs := procs s @
         [\<lparr>argv = cmd, returncode = None, signals = [], unread = [], sigterm_exit = d\<rparr>]\<rparr>)"

definition update_proc :: "pid \<Rightarrow> (proc \<Rightarrow> proc) \<Rightarrow> gui \<Rightarrow> gui" where
  "update_proc p f s = s\<lparr>procs := (procs s)[p := f (procs s ! p)]\<rparr>"

definition poll :: "pid \<Rightarrow> gui \<Rightarrow> int option" where
  "poll p s = returncode (procs s ! p)"

definition terminate :: "pid \<Rightarrow> gui \<Rightarrow> gui" where
  "terminate p s =
     (if poll p s = None then update_proc p (\<lambda>c. c\<lparr>signals := signals c @ [SIGTERM]\<rparr>) s
      else s)"

definition kill :: "pid \<Rightarrow> gui \<Rightarrow> gui" where
  "kill p s =
     (if poll p s = None
      then update_proc p (\<lambda>c. c\<lparr>signals := signals c @ [SIGKILL], returncode := Some (- 9)\<rparr>) s
      else s)"

text \<open>\<^verbatim>\<open>wait(timeout=2)\<close>: the first component says whether \<^verbatim>\<open>TimeoutExpired\<close> is raised.\<close>

definition wait_timeout :: "pid \<Rightarrow> gui \<Rightarrow> bool \<times> gui" where
  "wait_timeout p s =
     (if poll p s \<noteq> None then (False, s)
      else if SIGTERM \<in> set (signals (procs s ! p)) \<and> sigterm_exit (procs s ! p) \<noteq> None
      then (False, update_proc p (\<lambda>c. c\<lparr>returncode := sigterm_exit c\<rparr>) s)
      else (True, s))"



definition alive :: "gui \<Rightarrow> pid list" where
  "alive s = filter (\<lambda>p. poll p s = None) [0..<length (procs s)]"

subsection \<open>Strings the methods build\<close>

definition is_space :: "char \<Rightarrow> bool" where
  "is_space c =
     (c \<in> set [CHR 0x20, CHR 0x09, CHR 0x0A, CHR 0x0B, CHR 0x0C, CHR 0x0D,
                CHR 0x1C, CHR 0x1D, CHR 0x1E, CHR 0x1F])"

definition strip :: "string \<Rightarrow> string" where
  "strip x = rev (dropWhile is_space (rev (dropWhile is_space x)))"

fun join_spaces :: "string list \<Rightarrow> string" where
  "join_spaces [] = []"
| "join_spaces [x] = x"
| "join_spaces (x # y # ys) = x @ '' '' @ join_spaces (y # ys)"

definition str_returncode :: "int option \<Rightarrow> string" where
  "str_returncode rc = (case rc of None \<Rightarrow> ''None'' | Some n \<Rightarrow> str_int n)"

definition model_ai_path :: string where
  "model_ai_path = ''/home/mbuffmire/Documents/AICamera/modelAIvisionProgram.py''"

definition qr_reader_path :: string where
  "qr_reader_path = ''/home/mbuffmire/Documents/AICamera/QRReader.py''"

definition camera_cmd :: "string list" where
  "camera_cmd =
     [''rpicam-hello'',
      ''-t'', ''0s'',
      ''--post-process-file'', ''/usr/share/rpi-camera-assets/imx500_mobilenet_ssd.json'',
      ''--viewfinder-width'', ''1920'',
      ''--viewfinder-height'', ''1080'',
      ''--framerate'', ''30'']"

subsection \<open>Stopping\<close>

definition stop_camera :: "gui \<Rightarrow> gui" where
  "stop_camera s =
     (case process s of
        None \<Rightarrow> s
      | Some p \<Rightarrow>
          if camera_running s
          then print ''Camera stopped by user''
                 ((terminate p s)\<lparr>process := None, camera_running := False,
                    start_button := ''AI Vision'', status_label := ''Status: Stopped''\<rparr>)
          else s)"

definition stop_model_ai :: "gui \<Rightarrow> gui" where
  "stop_model_ai s =
     (case model_ai_process s of
        None \<Rightarrow> s
      | Some p \<Rightarrow>
          (let s1 = print ''Stopping Model AI Vision...'' s;
               s2 = terminate p s1;
               s3 = (case wait_timeout p s2 of
                       (True, s') \<Rightarrow> kill p s'
                     | (False, s') \<Rightarrow> s')
           in s3\<lparr>model_ai_process := None, model_ai_button := ''Model AI'',
                status_label := ''Status: Model AI Vision Stopped''\<rparr>))"

definition stop_qr_reader :: "gui \<Rightarrow> gui" where
  "stop_qr_reader s =
     (case qr_reader_process s of
        None \<Rightarrow> s
      | Some p \<Rightarrow>
          (let s1 = print ''Stopping QR Reader...'' s;
               s2 = terminate p s1;
               s3 = (case wait_timeout p s2 of
                       (True, s') \<Rightarrow> kill p s'
                     | (False, s') \<Rightarrow> s')
           in s3\<lparr>qr_reader_process := None, qr_button := ''QR Reader'',
                status_label := ''Status: QR Reader Stopped''\<rparr>))"

subsection \<open>Starting\<close>

definition start_model_ai :: "popen_result \<Rightarrow> gui \<Rightarrow> gui" where
  "start_model_ai r s =
     (if model_ai_process s \<noteq> None then s
      else
        (let s1 = (if camera_running s then stop_camera s else s);
             s2 = (if qr_reader_process s1 \<noteq> None then stop_qr_reader s1 else s1);
             s3 = s2\<lparr>status_label := ''Status: Starting Model AI Vision...'',
                     model_ai_button := ''Stop Model AI'', console := []\<rparr>;
             s4 = print ''Starting Model AI Vision application...'' s3
         in case r of
              Spawned d \<Rightarrow>
                (let (p, s5) = popen [sys_executable s4, model_ai_path] d s4;
                     s6 = s5\<lparr>model_ai_process := Some p, threads := threads s5 @ [ModelAIDrain]\<rparr>;
                     s7 = print ''Model AI Vision started successfully'' s6
                 in s7\<lparr>status_label := ''Status: Model AI Vision Running''\<rparr>)
            | OSError e \<Rightarrow>
                (print (''Error starting Model AI Vision: '' @ e) s4)
                  \<lparr>status_label := ''Status: Error - '' @ e, model_ai_button := ''Model AI'',
                   model_ai_process := None\<rparr>))"

definition start_qr_reader :: "popen_result \<Rightarrow> gui \<Rightarrow> gui" where
  "start_qr_reader r s =
     (if qr_reader_process s \<noteq> None then s
      else
        (let s1 = (if camera_running s then stop_camera s else s);
             s2 = (if model_ai_process s1 \<noteq> None then stop_model_ai s1 else s1);
             s3 = s2\<lparr>status_label := ''Status: Starting QR Reader...'',
                     qr_button := ''Stop QR Reader'', console := []\<rparr>;
             s4 = print ''Starting QR Reader application...'' s3
         in case r of
              Spawned d \<Rightarrow>
                (let (p, s5) = popen [sys_executable s4, qr_reader_path] d s4;
                     s6 = s5\<lparr>qr_reader_process := Some p, threads := threads s5 @ [QRDrain]\<rparr>;
                     s7 = print ''QR Reader started successfully'' s6
                 in s7\<lparr>status_label := ''Status: QR Reader Running''\<rparr>)
            | OSError e \<Rightarrow>
                (print (''Error starting QR Reader: '' @ e) s4)
                  \<lparr>status_label := ''Status: Error - '' @ e, qr_button := ''QR Reader'',
                   qr_reader_process := None\<rparr>))"

definition start_camera :: "gui \<Rightarrow> gui" where
  "start_camera s =
     (if camera_running s then s
      else
        (let s1 = (if qr_reader_process s \<noteq> None then stop_qr_reader s else s);
             s2 = (if model_ai_process s1 \<noteq> None then stop_model_ai s1 else s1)
         in s2\<lparr>camera_running := True, start_button := ''Stop AI Vision'',
               status_label := ''Status: Running'', console := [],
               threads := threads s2 @ [CameraThread]\<rparr>))"


definition toggle_qr_reader :: "popen_result \<Rightarrow> gui \<Rightarrow> gui" where
  "toggle_qr_reader r s =
     (if qr_reader_process s = None then start_qr_reader r s else stop_qr_reader s)"

definition toggle_camera :: "gui \<Rightarrow> gui" where
  "toggle_camera s = (if \<not> camera_running s then start_camera s else stop_camera s)"

subsection \<open>The camera thread\<close>

text \<open>
  \<^verbatim>\<open>_run_camera_thread\<close> runs in a thread of its own, in two steps. The first goes from the
  start of the thread to the call of \<^verbatim>\<open>wait()\<close>: it redirects \<^verbatim>\<open>sys.stdout\<close>, prints, and
  starts the camera process, or handles the exception if that fails. The second is the
  return of \<^verbatim>\<open>wait()\<close>, once the process has ended. Both leave the state alone when no
  thread is at that point.
\<close>

definition run_camera_thread :: "popen_result \<Rightarrow> gui \<Rightarrow> gui" where
  "run_camera_thread r s =
     (if CameraThread \<in> set (threads s)
      then
        (let s1 = s\<lparr>stdout_redirected := True\<rparr>;
             s2 = print ''Starting AI camera with object detection...'' s1;
             s3 = print (''Command: '' @ join_spaces camera_cmd) s2
         in case r of
              Spawned d \<Rightarrow>
                (let (p, s4) = popen camera_cmd d s3
                 in s4\<lparr>process := Some p,
                       threads := remove1 CameraThread (threads s4) @ [CameraWaiting p]\<rparr>)
            | OSError e \<Rightarrow>
                (print (''Error running camera: '' @ e) s3)
                  \<lparr>after_queue := after_queue s3 @ [CameraStopped],
                   stdout_redirected := False,
                   threads := remove1 CameraThread (threads s3)\<rparr>)
      else s)"

definition camera_wait_returns :: "pid \<Rightarrow> gui \<Rightarrow> gui" where
  "camera_wait_returns p s =
     (if CameraWaiting p \<in> set (threads s) \<and> poll p s \<noteq> None
      then s\<lparr>after_queue := after_queue s @ [CameraStopped],
             stdout_redirected := False,
             threads := remove1 (CameraWaiting p) (threads s)\<rparr>
      else s)"

definition camera_stopped :: "gui \<Rightarrow> gui" where
  "camera_stopped s =
     s\<lparr>camera_running := False, start_button := ''AI Vision'',
       status_label := ''Status: Ready'', process := None\<rparr>"

subsection \<open>The output drains\<close>

text \<open>
  \<^verbatim>\<open>readline()\<close> returns the next unread line, or the empty string at the end of the
  stream. The loop of \<^verbatim>\<open>_read_model_ai_output\<close> runs while the slot holds a handle; a
  loop that never leaves (a child that neither writes nor ends) has no result. One run of
  the thread is one step: the handlers of the main thread do not run in the middle of it,
  so the \<^verbatim>\<open>except\<close> around the loop body has nothing to catch.
\<close>

definition readline :: "pid \<Rightarrow> gui \<Rightarrow> string \<times> gui" where
  "readline p s =
     (case unread (procs s ! p) of
        [] \<Rightarrow> ([], s)
      | line # rest \<Rightarrow> (line, update_proc p (\<lambda>c. c\<lparr>unread := rest\<rparr>) s))"





partial_function (option) read_qr_reader_loop :: "gui \<Rightarrow> gui option" where
  "read_qr_reader_loop s =
     (case qr_reader_process s of
        None \<Rightarrow> Some s
      | Some p \<Rightarrow>
          (case readline p s of
             (line, s1) \<Rightarrow>
               if line = [] \<and> poll p s1 \<noteq> None then Some s1
               else if line \<noteq> [] then read_qr_reader_loop (print (''QR Reader: '' @ strip line) s1)
               else read_qr_reader_loop s1))"

declare read_qr_reader_loop.simps [code]

definition read_qr_reader_output :: "gui \<Rightarrow> gui option" where
  "read_qr_reader_output s =
     (case read_qr_reader_loop s of
        None \<Rightarrow> None
      | Some s1 \<Rightarrow>
          Some ((case qr_reader_process s1 of
                   None \<Rightarrow> s1
                 | Some p \<Rightarrow>
                     if poll p s1 \<noteq> None
                     then s1\<lparr>after_queue := after_queue s1 @ [QRReaderStopped]\<rparr>
                     else s1)
                \<lparr>threads := remove1 QRDrain (threads s1)\<rparr>))"

definition qr_reader_stopped :: "gui \<Rightarrow> gui" where
  "qr_reader_stopped s =
     (let rc = (case qr_reader_process s of None \<Rightarrow> None | Some p \<Rightarrow> poll p s);
          s1 = s\<lparr>qr_reader_process := None, qr_button := ''QR Reader'',
                 status_label := ''Status: QR Reader Exited (code: '' @
                                 str_returncode rc @ '')''\<rparr>
      in print (''QR Reader process ended with code: '' @ str_returncode rc) s1)"

subsection \<open>Closing\<close>

definition close_application :: "gui \<Rightarrow> gui" where
  "close_application s =
     (let s1 = (if camera_running s then stop_camera s else s);
          s2 = (if qr_reader_process s1 \<noteq> None then stop_qr_reader s1 else s1);
          s3 = (if model_ai_process s2 \<noteq> None then stop_model_ai s2 else s2)
      in s3\<lparr>destroyed := True\<rparr>)"

subsection \<open>Live processes of a task\<close>

text \<open>The live children that run a given command line, and a relation between an earlier
  and a later state for the proofs: no child has been added, none has come back to life,
  and the command lines are the same.\<close>

definition alive_running :: "string list \<Rightarrow> gui \<Rightarrow> pid list" where
  "alive_running cmd s =
     filter (\<lambda>p. poll p s = None \<and> argv (procs s ! p) = cmd) [0..<length (procs s)]"

definition settles :: "gui \<Rightarrow> gui \<Rightarrow> bool" where
  "settles s s' =
     (length (procs s') = length (procs s) \<and> sys_executable s' = sys_executable s \<and>
      (\<forall>p < length (procs s).
         argv (procs s' ! p) = argv (procs s ! p) \<and> (poll p s' = None \<longrightarrow> poll p s = None)))"

text \<open>What \<^verbatim>\<open>print\<close> has written where \<^verbatim>\<open>sys.stdout\<close> points now.\<close>

definition stdout_lines :: "gui \<Rightarrow> string list" where
  "stdout_lines s = (if stdout_redirected s then console s else terminal s)"

text \<open>Printing a list of lines, one after the other.\<close>

definition print_all :: "string list \<Rightarrow> gui \<Rightarrow> gui" where
  "print_all xs s = fold print xs s"


section \<open>Properties: decimal rendering\<close>

lemma digit_all: "list_all (\<lambda>d. digit_val (digit_char d) = d \<and> digit_char d \<noteq> CHR ''-'') [0..<10]"
  by code_simp
lemma digit_val_digit_char: "d < 10 \<Longrightarrow> digit_val (digit_char d) = d"
  using digit_all by (simp add: list_all_iff)
lemma digit_char_not_minus: "d < 10 \<Longrightarrow> digit_char d \<noteq> CHR ''-''"
  using digit_all by (simp add: list_all_iff)
lemma nat_of_str_snoc: "nat_of_str (s @ [c]) = 10 * nat_of_str s + digit_val c" by (simp add: nat_of_str_def)
lemma nat_of_str_str_nat: "nat_of_str (str_nat n) = n"
proof (induction n rule: str_nat.induct)
  case (1 n)
  show ?case
  proof (cases "n < 10")
    case True
    then show ?thesis by (simp add: str_nat.simps[of n] nat_of_str_def digit_val_digit_char)
  next
    case False
    with 1 show ?thesis by (simp add: str_nat.simps[of n] nat_of_str_snoc digit_val_digit_char)
  qed
qed
lemma str_nat_head: "str_nat n \<noteq> [] \<and> hd (str_nat n) \<noteq> CHR ''-''"
proof (induction n rule: str_nat.induct)
  case (1 n)
  show ?case
  proof (cases "n < 10")
    case True
    then show ?thesis by (simp add: str_nat.simps[of n] digit_char_not_minus)
  next
    case False
    with 1 show ?thesis by (simp add: str_nat.simps[of n])
  qed
qed
lemma int_of_str_unsigned: "s \<noteq> [] \<Longrightarrow> hd s \<noteq> CHR ''-'' \<Longrightarrow> int_of_str s = int (nat_of_str s)"
  by (cases s) (simp_all add: int_of_str_def)
lemma int_of_str_str_int: "int_of_str (str_int i) = i"
proof (cases "i < 0")
  case True
  then show ?thesis by (simp add: str_int_def int_of_str_def nat_of_str_str_nat)
next
  case False
  then show ?thesis
    using str_nat_head[of "nat i"] by (simp add: str_int_def int_of_str_unsigned nat_of_str_str_nat)
qed

section \<open>Properties: create\_labels.py\<close>



section \<open>Properties: launch commands\<close>

text \<open>
  Claim C7, as the code has it. String arguments (model path, timeout, output file) are
  passed through unmodified, and every integer flag that reaches a command line is
  rendered in decimal, so that reading the rendered flag back gives the parsed value.
  The exception is the frame rate of the QR reader: \<open>qr_main\<close> limits it to the range
  from 1 to 10, and it is not part of the capture command.
\<close>

theorem launch_commands_pass_arguments:
  "pose_detection_cmd d w h f m ! 2 = str_int d @ ''s'' \<and>
   pose_detection_cmd d w h f m ! 4 = m \<and>
   int_of_str (pose_detection_cmd d w h f m ! 6) = w \<and>
   int_of_str (pose_detection_cmd d w h f m ! 8) = h \<and>
   int_of_str (pose_detection_cmd d w h f m ! 10) = f \<and>
   imx500_start_cmd cam t ! 2 = t \<and>
   imx500_start_cmd cam t ! 4 = model_file cam \<and>
   int_of_str (imx500_start_cmd cam t ! 6) = cam_width cam \<and>
   int_of_str (imx500_start_cmd cam t ! 8) = cam_height cam \<and>
   int_of_str (imx500_start_cmd cam t ! 10) = cam_framerate cam \<and>
   int_of_str (capture_cmd (qr_main tmp a) ! 2) = arg_width a \<and>
   int_of_str (capture_cmd (qr_main tmp a) ! 4) = arg_height a \<and>
   capture_cmd (qr_main tmp a) ! 6 = tmp \<and>
   qr_framerate (qr_main tmp a) = max 1 (min 10 (arg_framerate a))"
  by (simp add: pose_detection_cmd_def imx500_start_cmd_def capture_cmd_def qr_main_def
      int_of_str_str_int)

text \<open>
  Claim C7 as stated fails: a frame rate of 30 given to the QR reader becomes 10, and the
  capture command does not contain it.
\<close>

theorem qr_framerate_clamped_counterexample:
  "qr_framerate (qr_main ''/tmp/frame.jpg''
      \<lparr>arg_width = 1280, arg_height = 720, arg_framerate = 30\<rparr>) = 10 \<and>
   str_int 30 \<notin> set (capture_cmd (qr_main ''/tmp/frame.jpg''
      \<lparr>arg_width = 1280, arg_height = 720, arg_framerate = 30\<rparr>))"
  by (simp add: qr_main_def capture_cmd_def str_int_def str_nat.simps digit_char_def)

section \<open>Properties: object detection post-processing\<close>

lemma py_int_max_lower: "py_int (py_max (of_pyint 1) x) = Inr n \<Longrightarrow> 1 \<le> n"
  by (cases x) (auto simp: py_max_def of_pyint_def split: if_splits)

lemma py_int_min_upper: "py_int (py_min (of_pyint h) x) = Inr n \<Longrightarrow> n \<le> h"
  by (cases x) (auto simp: py_min_def of_pyint_def ceiling_le_iff floor_le_iff split: if_splits)

lemma not_lt_iff: "(\<not> py_lt s (Fin c)) = (py_ge s (Fin c) \<or> s = NaN)"
  by (cases s) (auto simp: py_ge_def)

lemma detect_row_Some:
  assumes "detect_row mul labels w h row = Inr (Some (label, score, (xmin, ymin, xmax, ymax)))"
  shows "\<not> py_lt score (Fin 0.5) \<and> 1 \<le> xmin \<and> 1 \<le> ymin \<and> ymax \<le> h \<and> xmax \<le> w"
  using assms
  by (auto simp: detect_row_def ebind_def subscript_def split: sum.splits if_splits
           dest: py_int_max_lower py_int_min_upper)

lemma detect_row_score:
  "detect_row mul labels w h row = Inr (Some (label, score, box)) \<Longrightarrow> row ! 4 = score"
  by (auto simp: detect_row_def ebind_def subscript_def split: sum.splits if_splits)

lemma detect_row_None:
  "detect_row mul labels w h row = Inr None \<Longrightarrow> py_lt (row ! 4) (Fin 0.5)"
  by (auto simp: detect_row_def ebind_def subscript_def split: sum.splits if_splits)
lemma detection_loop_scores:
  "detection_loop mul labels w h rows acc = Inr results \<Longrightarrow>
     map (fst \<circ> snd) results =
       map (fst \<circ> snd) acc @ filter (\<lambda>sc. \<not> py_lt sc (Fin 0.5)) (map (\<lambda>row. row ! 4) rows)"
proof (induction rows arbitrary: acc)
  case Nil
  then show ?case by simp
next
  case (Cons row rows)
  show ?case
  proof (cases "detect_row mul labels w h row")
    case (Inl e)
    with Cons.prems show ?thesis by simp
  next
    case (Inr r)
    show ?thesis
    proof (cases r)
      case None
      with Inr Cons.prems have "detection_loop mul labels w h rows acc = Inr results" by simp
      from Cons.IH[OF this] detect_row_None[of mul labels w h row] Inr None
      show ?thesis by simp
    next
      case (Some d)
      obtain label score xmin ymin xmax ymax where d: "d = (label, score, (xmin, ymin, xmax, ymax))"
        by (cases d) auto
      from Some Inr Cons.prems have "detection_loop mul labels w h rows (acc @ [d]) = Inr results" by simp
      moreover from Inr Some d have "row ! 4 = score" "\<not> py_lt score (Fin 0.5)"
        using detect_row_score[of mul labels w h row label score "(xmin, ymin, xmax, ymax)"]
          detect_row_Some[of mul labels w h row label score xmin ymin xmax ymax] by simp_all
      ultimately show ?thesis using Cons.IH[of "acc @ [d]"] d by simp
    qed
  qed
qed

lemma detection_loop_members:
  "detection_loop mul labels w h rows acc = Inr results \<Longrightarrow> d \<in> set results \<Longrightarrow>
     d \<in> set acc \<or> (\<exists>row. detect_row mul labels w h row = Inr (Some d))"
proof (induction rows arbitrary: acc)
  case Nil
  then show ?case by simp
next
  case (Cons row rows)
  show ?case
  proof (cases "detect_row mul labels w h row")
    case (Inl e)
    with Cons.prems show ?thesis by simp
  next
    case (Inr r)
    show ?thesis
    proof (cases r)
      case None
      with Inr Cons.prems have "detection_loop mul labels w h rows acc = Inr results" by simp
      from Cons.IH[OF this Cons.prems(2)] show ?thesis .
    next
      case (Some d')
      from Some Inr Cons.prems have "detection_loop mul labels w h rows (acc @ [d']) = Inr results" by simp
      from Cons.IH[OF this Cons.prems(2)] Inr Some show ?thesis by auto
    qed
  qed
qed

text \<open>
  Claim C9, as the code has it. When \<open>process_object_detection\<close> returns, no returned
  detection has a score below 0.5: the score is at least 0.5 or it is NaN, which the
  test \<^verbatim>\<open>score < 0.5\<close> lets through. The box of every returned detection satisfies
  \<open>1 \<le> xmin\<close>, \<open>1 \<le> ymin\<close>, \<open>ymax \<le> img_height\<close> and \<open>xmax \<le> img_width\<close>, whatever the
  rounding of the products. The returned scores are, in order, the scores of the rows
  that are not below the threshold: rows below it are omitted and no other row is.
\<close>

theorem process_object_detection_threshold_and_clamp:
  assumes "process_object_detection mul labels output_data img_width img_height = Inr results"
  shows "(\<forall>(label, score, (xmin, ymin, xmax, ymax)) \<in> set results.
            (py_ge score (Fin 0.5) \<or> score = NaN) \<and>
            1 \<le> xmin \<and> 1 \<le> ymin \<and> ymax \<le> img_height \<and> xmax \<le> img_width) \<and>
         map (fst \<circ> snd) results =
           filter (\<lambda>sc. \<not> py_lt sc (Fin 0.5)) (map (\<lambda>row. row ! 4) (output_data ! 0))"
proof (intro conjI ballI)
  from assms have loop:
    "detection_loop mul labels img_width img_height (output_data ! 0) [] = Inr results"
    by (auto simp: process_object_detection_def ebind_def subscript_def split: if_splits)
  from detection_loop_scores[OF loop]
  show "map (fst \<circ> snd) results =
       filter (\<lambda>sc. \<not> py_lt sc (Fin 0.5)) (map (\<lambda>row. row ! 4) (output_data ! 0))"
    by simp
  fix d assume mem: "d \<in> set results"
  obtain label score xmin ymin xmax ymax where d: "d = (label, score, (xmin, ymin, xmax, ymax))"
    by (cases d) auto
  from detection_loop_members[OF loop mem] d obtain row where
    "detect_row mul labels img_width img_height row =
       Inr (Some (label, score, (xmin, ymin, xmax, ymax)))"
    by auto
  from detect_row_Some[OF this] have
    "(py_ge score (Fin 0.5) \<or> score = NaN) \<and>
     1 \<le> xmin \<and> 1 \<le> ymin \<and> ymax \<le> img_height \<and> xmax \<le> img_width"
    by (simp add: not_lt_iff)
  then show "case d of (label, score, (xmin, ymin, xmax, ymax)) \<Rightarrow>
            (py_ge score (Fin 0.5) \<or> score = NaN) \<and>
            1 \<le> xmin \<and> 1 \<le> ymin \<and> ymax \<le> img_height \<and> xmax \<le> img_width"
    by (simp add: d)
qed

theorem process_object_detection_threshold_and_clamp_witness:
  "process_object_detection exact_mul [''a'', ''b''] example_output 640 480 =
     Inr [(''b'', Fin 0.7, (128, 48, 576, 240)), (''Class 7'', Fin 0.5, (128, 1, -64, 480))] \<and>
   map (fst \<circ> snd)
     [(''b'', Fin 0.7, (128::int, 48::int, 576::int, 240::int)),
      (''Class 7'', Fin 0.5, (128, 1, -64, 480))] =
     filter (\<lambda>sc. \<not> py_lt sc (Fin 0.5)) (map (\<lambda>row. row ! 4) (example_output ! 0))"
proof -
  have run: "process_object_detection exact_mul [''a'', ''b''] example_output 640 480 =
     Inr [(''b'', Fin 0.7, (128, 48, 576, 240)), (''Class 7'', Fin 0.5, (128, 1, -64, 480))]"
    by (simp add: process_object_detection_def example_output_def detect_row_def ebind_def
        subscript_def label_of_def py_max_def py_min_def of_pyint_def str_int_def
        str_nat.simps digit_char_def)
  show ?thesis
    by (rule conjI[OF run process_object_detection_threshold_and_clamp[OF run, THEN conjunct2]])
qed

text \<open>
  Claim C9 as stated fails on a row whose score is NaN: the detection is returned, and its
  score is not at least 0.5.
\<close>

theorem nan_score_counterexample:
  "process_object_detection exact_mul [] [[[Fin 0, Fin 0, Fin 0, Fin 0, NaN, Fin 0]]] 640 480 =
     Inr [(''Class 0'', NaN, (1, 1, 0, 0))] \<and> \<not> py_ge NaN (Fin 0.5)"
  by (simp add: process_object_detection_def detect_row_def ebind_def
        subscript_def label_of_def py_max_def py_min_def of_pyint_def str_int_def
        str_nat.simps digit_char_def py_ge_def)

section \<open>Properties: the process supervisor\<close>

lemmas os_defs = print_def popen_def terminate_def kill_def wait_timeout_def poll_def
  update_proc_def
lemmas stop_defs = stop_camera_def stop_model_ai_def stop_qr_reader_def
lemmas start_defs = start_camera_def start_model_ai_def start_qr_reader_def run_camera_thread_def

subsection \<open>Stopping the camera\<close>

text \<open>
  Claim C2, evaluated where it fails. The camera runs a child that is still running two
  seconds after \<^verbatim>\<open>SIGTERM\<close>. \<open>stop_camera\<close> sends \<^verbatim>\<open>SIGTERM\<close> and releases the handle at once:
  the slot is idle, the child has received \<^verbatim>\<open>SIGTERM\<close> only, no wait and no \<^verbatim>\<open>SIGKILL\<close>, and
  it is still alive. (\<open>stop_model_ai\<close> and \<open>stop_qr_reader\<close> wait and kill.)
\<close>

theorem stop_camera_sends_sigterm_only:
  "process (stop_camera (run_camera_thread (Spawned None) (start_camera (init ''python3'')))) = None \<and>
   \<not> camera_running (stop_camera (run_camera_thread (Spawned None) (start_camera (init ''python3'')))) \<and>
   poll 0 (stop_camera (run_camera_thread (Spawned None) (start_camera (init ''python3'')))) = None \<and>
   signals (procs (stop_camera (run_camera_thread (Spawned None) (start_camera (init ''python3'')))) ! 0) = [SIGTERM]"
  by (simp add: init_def start_defs stop_defs os_defs Let_def)

text \<open>
  Claim C1, evaluated where it fails. Starting Model AI while the camera runs stops the
  camera with \<open>stop_camera\<close>: the camera child is still alive, with \<^verbatim>\<open>SIGTERM\<close> pending,
  when the Model AI child is started, so two children are alive. And when Model AI is
  started after \<open>start_camera\<close> but before the camera thread has started its child,
  \<open>stop_camera\<close> does nothing, the thread starts the camera later, and both slots hold a
  handle.
\<close>

theorem camera_alive_when_model_ai_starts:
  "poll 0 (start_model_ai (Spawned (Some (- 15)))
      (run_camera_thread (Spawned None) (start_camera (init ''python3'')))) = None \<and>
   signals (procs (start_model_ai (Spawned (Some (- 15)))
      (run_camera_thread (Spawned None) (start_camera (init ''python3'')))) ! 0) = [SIGTERM] \<and>
   alive (start_model_ai (Spawned (Some (- 15)))
      (run_camera_thread (Spawned None) (start_camera (init ''python3'')))) = [0, 1] \<and>
   process (run_camera_thread (Spawned None)
      (start_model_ai (Spawned (Some (- 15))) (start_camera (init ''python3'')))) = Some 1 \<and>
   model_ai_process (run_camera_thread (Spawned None)
      (start_model_ai (Spawned (Some (- 15))) (start_camera (init ''python3'')))) = Some 0"
  by (simp add: init_def start_defs stop_defs os_defs alive_def Let_def upt_rec)

text \<open>
  Claim C8, evaluated where it fails. \<open>close_application\<close> with the camera running destroys
  the window while the camera child is alive.
\<close>

theorem close_application_leaves_camera_alive:
  "destroyed (close_application (run_camera_thread (Spawned None) (start_camera (init ''python3'')))) \<and>
   alive (close_application (run_camera_thread (Spawned None) (start_camera (init ''python3'')))) = [0]"
  by (simp add: init_def close_application_def start_defs stop_defs os_defs alive_def Let_def upt_rec)

subsection \<open>Starting twice\<close>

lemma start_model_ai_holds: "model_ai_process (start_model_ai (Spawned d) s) \<noteq> None"
  by (simp add: start_model_ai_def Let_def print_def popen_def)

lemma start_model_ai_noop: "model_ai_process s \<noteq> None \<Longrightarrow> start_model_ai r s = s"
  by (simp add: start_model_ai_def)

lemma start_qr_reader_holds: "qr_reader_process (start_qr_reader (Spawned d) s) \<noteq> None"
  by (simp add: start_qr_reader_def Let_def print_def popen_def)

lemma start_qr_reader_noop: "qr_reader_process s \<noteq> None \<Longrightarrow> start_qr_reader r s = s"
  by (simp add: start_qr_reader_def)

lemma start_camera_holds: "camera_running (start_camera s)"
  by (simp add: start_camera_def Let_def)

lemma start_camera_noop: "camera_running s \<Longrightarrow> start_camera s = s"
  by (simp add: start_camera_def)


subsection \<open>The process table under the operations\<close>

lemma procs_print [simp]: "procs (print x s) = procs s"
  by (simp add: print_def)

lemma settles_refl [simp]: "settles s s"
  by (simp add: settles_def)

lemma settles_trans: "settles s s' \<Longrightarrow> settles s' s'' \<Longrightarrow> settles s s''"
  by (simp add: settles_def)

lemma settles_same: "procs s' = procs s \<Longrightarrow> sys_executable s' = sys_executable s \<Longrightarrow> settles s s'"
  by (simp add: settles_def poll_def)

lemma settles_update_proc:
  "argv (f (procs s ! p)) = argv (procs s ! p) \<Longrightarrow>
   (returncode (f (procs s ! p)) = None \<longrightarrow> poll p s = None) \<Longrightarrow>
   settles s (update_proc p f s)"
proof -
  assume a: "argv (f (procs s ! p)) = argv (procs s ! p)"
    and r: "returncode (f (procs s ! p)) = None \<longrightarrow> poll p s = None"
  have "argv ((procs s)[p := f (procs s ! p)] ! q) = argv (procs s ! q) \<and>
        (returncode ((procs s)[p := f (procs s ! p)] ! q) = None \<longrightarrow>
         returncode (procs s ! q) = None)"
    if "q < length (procs s)" for q
  proof (cases "q = p")
    case True
    with that a r show ?thesis by (simp add: poll_def)
  next
    case False
    then show ?thesis by simp
  qed
  then show ?thesis by (simp add: settles_def update_proc_def poll_def)
qed

lemma settles_print [simp]: "settles s (print x s)"
  by (rule settles_same) (simp_all add: print_def)

lemma settles_terminate [simp]: "settles s (terminate p s)"
  by (simp add: terminate_def settles_update_proc)

lemma settles_kill [simp]: "settles s (kill p s)"
  by (simp add: kill_def settles_update_proc)

lemma settles_wait [simp]: "settles s (snd (wait_timeout p s))"
  by (simp add: wait_timeout_def settles_update_proc)

lemma settles_stop_camera [simp]: "settles s (stop_camera s)"
proof (cases "process s")
  case None
  then show ?thesis by (simp add: stop_camera_def)
next
  case (Some p)
  have "settles (terminate p s)
     (print ''Camera stopped by user''
        ((terminate p s)\<lparr>process := None, camera_running := False,
           start_button := ''AI Vision'', status_label := ''Status: Stopped''\<rparr>))"
    by (rule settles_same) (simp_all add: print_def)
  from settles_trans[OF settles_terminate this] Some show ?thesis
    by (simp add: stop_camera_def)
qed

lemma settles_stop_model_ai [simp]: "settles s (stop_model_ai s)"
proof (cases "model_ai_process s")
  case None
  then show ?thesis by (simp add: stop_model_ai_def)
next
  case (Some p)
  define s2 where "s2 = terminate p (print ''Stopping Model AI Vision...'' s)"
  have s2: "settles s s2"
    unfolding s2_def by (rule settles_trans[OF settles_print settles_terminate])
  obtain t s3 where w: "wait_timeout p s2 = (t, s3)" by (cases "wait_timeout p s2")
  have s3: "settles s s3" using settles_wait[of s2 p] w settles_trans[OF s2] by simp
  have s4: "settles s (kill p s3)" by (rule settles_trans[OF s3 settles_kill])
  have "settles s ((if t then kill p s3 else s3)\<lparr>model_ai_process := None,
      model_ai_button := ''Model AI'', status_label := ''Status: Model AI Vision Stopped''\<rparr>)"
    by (rule settles_trans[of s "if t then kill p s3 else s3"])
       (use s3 s4 in \<open>simp_all add: settles_same\<close>)
  with Some w show ?thesis
    by (cases t) (simp_all add: stop_model_ai_def Let_def s2_def[symmetric])
qed

lemma settles_stop_qr_reader [simp]: "settles s (stop_qr_reader s)"
proof (cases "qr_reader_process s")
  case None
  then show ?thesis by (simp add: stop_qr_reader_def)
next
  case (Some p)
  define s2 where "s2 = terminate p (print ''Stopping QR Reader...'' s)"
  have s2: "settles s s2"
    unfolding s2_def by (rule settles_trans[OF settles_print settles_terminate])
  obtain t s3 where w: "wait_timeout p s2 = (t, s3)" by (cases "wait_timeout p s2")
  have s3: "settles s s3" using settles_wait[of s2 p] w settles_trans[OF s2] by simp
  have s4: "settles s (kill p s3)" by (rule settles_trans[OF s3 settles_kill])
  have "settles s ((if t then kill p s3 else s3)\<lparr>qr_reader_process := None,
      qr_button := ''QR Reader'', status_label := ''Status: QR Reader Stopped''\<rparr>)"
    by (rule settles_trans[of s "if t then kill p s3 else s3"])
       (use s3 s4 in \<open>simp_all add: settles_same\<close>)
  with Some w show ?thesis
    by (cases t) (simp_all add: stop_qr_reader_def Let_def s2_def[symmetric])
qed

lemma alive_running_settles:
  "settles s s' \<Longrightarrow> alive_running cmd s = [] \<Longrightarrow> alive_running cmd s' = []"
  by (auto simp: settles_def alive_running_def filter_empty_conv)

lemma alive_running_spawn:
  "alive_running cmd s = [] \<Longrightarrow> procs s' = procs s @ [c] \<Longrightarrow> returncode c = None \<Longrightarrow>
   argv c = cmd \<Longrightarrow> alive_running cmd s' = [length (procs s)]"
  by (auto simp: alive_running_def poll_def filter_empty_conv nth_append)


lemma sys_executable_print [simp]: "sys_executable (print x s) = sys_executable s"
  by (simp add: print_def)

lemma settles_length: "settles s s' \<Longrightarrow> length (procs s') = length (procs s)"
  by (simp add: settles_def)

lemma settles_upd:
  "settles s s' \<Longrightarrow> procs s'' = procs s' \<Longrightarrow> sys_executable s'' = sys_executable s' \<Longrightarrow>
     settles s s''"
  by (simp add: settles_def poll_def)

lemma start_model_ai_spawn:
  assumes "model_ai_process s = None"
  shows "\<exists>s4 c. settles s s4 \<and> procs (start_model_ai (Spawned d) s) = procs s4 @ [c] \<and>
           returncode c = None \<and> argv c = [sys_executable s, model_ai_path]"
proof -
  have 1: "settles s (if camera_running s then stop_camera s else s)" (is "settles s ?s1")
    by simp
  have 2: "settles ?s1 (if qr_reader_process ?s1 \<noteq> None then stop_qr_reader ?s1 else ?s1)"
    (is "settles _ ?s2") by simp
  have 3: "settles s ?s2" by (rule settles_trans[OF 1 2])
  have 4: "settles s (print ''Starting Model AI Vision application...''
     (?s2\<lparr>status_label := ''Status: Starting Model AI Vision...'',
         model_ai_button := ''Stop Model AI'', console := []\<rparr>))" (is "settles s ?s4")
    by (rule settles_upd[OF 3]) simp_all
  then have exe: "sys_executable ?s4 = sys_executable s" by (simp only: settles_def)
  have "start_model_ai (Spawned d) s =
      (print ''Model AI Vision started successfully''
         ((snd (popen [sys_executable ?s4, model_ai_path] d ?s4))
            \<lparr>model_ai_process := Some (fst (popen [sys_executable ?s4, model_ai_path] d ?s4)),
             threads := threads (snd (popen [sys_executable ?s4, model_ai_path] d ?s4)) @
                [ModelAIDrain]\<rparr>))
        \<lparr>status_label := ''Status: Model AI Vision Running''\<rparr>"
    unfolding start_model_ai_def Let_def using assms by (simp only: split_beta) simp
  then have "procs (start_model_ai (Spawned d) s) =
        procs ?s4 @ [\<lparr>argv = [sys_executable ?s4, model_ai_path], returncode = None,
                       signals = [], unread = [], sigterm_exit = d\<rparr>]"
    by (simp only: popen_def) simp
  with 4 exe show ?thesis by (intro exI[of _ ?s4] exI conjI) (assumption, assumption, simp, simp)
qed

lemma start_qr_reader_spawn:
  assumes "qr_reader_process s = None"
  shows "\<exists>s4 c. settles s s4 \<and> procs (start_qr_reader (Spawned d) s) = procs s4 @ [c] \<and>
           returncode c = None \<and> argv c = [sys_executable s, qr_reader_path]"
proof -
  have 1: "settles s (if camera_running s then stop_camera s else s)" (is "settles s ?s1")
    by simp
  have 2: "settles ?s1 (if model_ai_process ?s1 \<noteq> None then stop_model_ai ?s1 else ?s1)"
    (is "settles _ ?s2") by simp
  have 3: "settles s ?s2" by (rule settles_trans[OF 1 2])
  have 4: "settles s (print ''Starting QR Reader application...''
     (?s2\<lparr>status_label := ''Status: Starting QR Reader...'',
         qr_button := ''Stop QR Reader'', console := []\<rparr>))" (is "settles s ?s4")
    by (rule settles_upd[OF 3]) simp_all
  then have exe: "sys_executable ?s4 = sys_executable s" by (simp only: settles_def)
  have "start_qr_reader (Spawned d) s =
      (print ''QR Reader started successfully''
         ((snd (popen [sys_executable ?s4, qr_reader_path] d ?s4))
            \<lparr>qr_reader_process := Some (fst (popen [sys_executable ?s4, qr_reader_path] d ?s4)),
             threads := threads (snd (popen [sys_executable ?s4, qr_reader_path] d ?s4)) @
                [QRDrain]\<rparr>))
        \<lparr>status_label := ''Status: QR Reader Running''\<rparr>"
    unfolding start_qr_reader_def Let_def using assms by (simp only: split_beta) simp
  then have "procs (start_qr_reader (Spawned d) s) =
        procs ?s4 @ [\<lparr>argv = [sys_executable ?s4, qr_reader_path], returncode = None,
                       signals = [], unread = [], sigterm_exit = d\<rparr>]"
    by (simp only: popen_def) simp
  with 4 exe show ?thesis by (intro exI[of _ ?s4] exI conjI) (assumption, assumption, simp, simp)
qed

lemma settles_start_camera: "settles s (start_camera s)"
proof (cases "camera_running s")
  case True
  then show ?thesis by (simp add: start_camera_def)
next
  case False
  have 1: "settles s (if qr_reader_process s \<noteq> None then stop_qr_reader s else s)"
    (is "settles s ?s1") by simp
  have 2: "settles ?s1 (if model_ai_process ?s1 \<noteq> None then stop_model_ai ?s1 else ?s1)"
    (is "settles _ ?s2") by simp
  have 3: "settles s ?s2" by (rule settles_trans[OF 1 2])
  have "settles s (?s2\<lparr>camera_running := True, start_button := ''Stop AI Vision'',
               status_label := ''Status: Running'', console := [],
               threads := threads ?s2 @ [CameraThread]\<rparr>)"
    by (rule settles_upd[OF 3]) simp_all
  then show ?thesis unfolding start_camera_def Let_def using False by (simp only: if_False)
qed

lemma start_camera_thread: "\<not> camera_running s \<Longrightarrow> CameraThread \<in> set (threads (start_camera s))"
  by (simp add: start_camera_def Let_def)

lemma run_camera_thread_spawn:
  "CameraThread \<in> set (threads s) \<Longrightarrow>
   procs (run_camera_thread (Spawned d) s) =
     procs s @ [\<lparr>argv = camera_cmd, returncode = None, signals = [], unread = [],
                  sigterm_exit = d\<rparr>]"
  by (simp add: run_camera_thread_def Let_def print_def popen_def)

lemma alive_running_after_spawn:
  assumes "alive_running cmd s = []" "settles s s4" "procs s' = procs s4 @ [c]"
    "returncode c = None" "argv c = cmd"
  shows "alive_running cmd s' = [length (procs s)]"
  using alive_running_spawn[OF alive_running_settles[OF assms(2,1)] assms(3,4,5)]
    settles_length[OF assms(2)] by simp

text \<open>
  Claim C3, as the code has it. For each task, a second \<open>start\<close> right after a first one
  that started a child returns the state unchanged: nothing is raised, printed or
  displayed. If the slot was idle and no child of the task was alive before the first
  call, exactly one child of the task is alive afterwards, the one the first call
  started (for the camera: once the camera thread has started it).
\<close>

theorem second_start_returns_silently:
  "start_model_ai r (start_model_ai (Spawned d) s) = start_model_ai (Spawned d) s \<and>
   start_qr_reader r (start_qr_reader (Spawned d) s) = start_qr_reader (Spawned d) s \<and>
   start_camera (start_camera s) = start_camera s \<and>
   (model_ai_process s = None \<and> alive_running [sys_executable s, model_ai_path] s = [] \<longrightarrow>
      alive_running [sys_executable s, model_ai_path]
        (start_model_ai r (start_model_ai (Spawned d) s)) = [length (procs s)]) \<and>
   (qr_reader_process s = None \<and> alive_running [sys_executable s, qr_reader_path] s = [] \<longrightarrow>
      alive_running [sys_executable s, qr_reader_path]
        (start_qr_reader r (start_qr_reader (Spawned d) s)) = [length (procs s)]) \<and>
   (\<not> camera_running s \<and> alive_running camera_cmd s = [] \<longrightarrow>
      alive_running camera_cmd
        (run_camera_thread (Spawned d) (start_camera (start_camera s))) = [length (procs s)])"
proof (intro conjI impI)
  show m: "start_model_ai r (start_model_ai (Spawned d) s) = start_model_ai (Spawned d) s"
    by (rule start_model_ai_noop[OF start_model_ai_holds])
  show q: "start_qr_reader r (start_qr_reader (Spawned d) s) = start_qr_reader (Spawned d) s"
    by (rule start_qr_reader_noop[OF start_qr_reader_holds])
  show c: "start_camera (start_camera s) = start_camera s"
    by (rule start_camera_noop[OF start_camera_holds])
  show "alive_running [sys_executable s, model_ai_path]
        (start_model_ai r (start_model_ai (Spawned d) s)) = [length (procs s)]"
    if "model_ai_process s = None \<and> alive_running [sys_executable s, model_ai_path] s = []"
  proof -
    from start_model_ai_spawn[of s d] that obtain s4 c where
      "settles s s4" "procs (start_model_ai (Spawned d) s) = procs s4 @ [c]"
      "returncode c = None" "argv c = [sys_executable s, model_ai_path]" by auto
    from alive_running_after_spawn[OF _ this] that show ?thesis by (simp add: m)
  qed
  show "alive_running [sys_executable s, qr_reader_path]
        (start_qr_reader r (start_qr_reader (Spawned d) s)) = [length (procs s)]"
    if "qr_reader_process s = None \<and> alive_running [sys_executable s, qr_reader_path] s = []"
  proof -
    from start_qr_reader_spawn[of s d] that obtain s4 c where
      "settles s s4" "procs (start_qr_reader (Spawned d) s) = procs s4 @ [c]"
      "returncode c = None" "argv c = [sys_executable s, qr_reader_path]" by auto
    from alive_running_after_spawn[OF _ this] that show ?thesis by (simp add: q)
  qed
  show "alive_running camera_cmd
        (run_camera_thread (Spawned d) (start_camera (start_camera s))) = [length (procs s)]"
    if "\<not> camera_running s \<and> alive_running camera_cmd s = []"
  proof -
    from that have "CameraThread \<in> set (threads (start_camera s))"
      by (simp add: start_camera_thread)
    from run_camera_thread_spawn[OF this, of d]
    have "procs (run_camera_thread (Spawned d) (start_camera s)) =
       procs (start_camera s) @ [\<lparr>argv = camera_cmd, returncode = None, signals = [],
          unread = [], sigterm_exit = d\<rparr>]" .
    from alive_running_after_spawn[OF _ settles_start_camera this] that
    show ?thesis by (simp add: c)
  qed
qed


text \<open>From the initial state, after two starts in a row, the only live child of each task
  is child 0.\<close>

theorem second_start_returns_silently_witness:
  "alive_running [''python3'', model_ai_path]
     (start_model_ai (OSError ''x'') (start_model_ai (Spawned None) (init ''python3''))) = [0] \<and>
   alive_running [''python3'', qr_reader_path]
     (start_qr_reader (OSError ''x'') (start_qr_reader (Spawned None) (init ''python3''))) = [0] \<and>
   alive_running camera_cmd
     (run_camera_thread (Spawned None) (start_camera (start_camera (init ''python3'')))) = [0]"
proof -
  have "model_ai_process (init ''python3'') = None"
    "qr_reader_process (init ''python3'') = None"
    "\<not> camera_running (init ''python3'')"
    "sys_executable (init ''python3'') = ''python3''"
    "length (procs (init ''python3'')) = 0"
    "alive_running cmd (init ''python3'') = []" for cmd
    by (simp_all add: init_def alive_running_def)
  with second_start_returns_silently[of "OSError ''x''" None "init ''python3''",
      THEN conjunct2, THEN conjunct2, THEN conjunct2]
  show ?thesis by simp
qed

text \<open>
  Claim C3 as stated fails: the second call does not fail with \<open>AlreadyRunning\<close>. After it
  the state is the one the first call left, the status still says that the task runs, and
  the output holds the two lines of the first call and no error.
\<close>

theorem second_start_no_error_counterexample:
  "start_model_ai (Spawned None) (start_model_ai (Spawned None) (init ''python3'')) =
     start_model_ai (Spawned None) (init ''python3'') \<and>
   status_label (start_model_ai (Spawned None) (start_model_ai (Spawned None) (init ''python3''))) =
     ''Status: Model AI Vision Running'' \<and>
   terminal (start_model_ai (Spawned None) (start_model_ai (Spawned None) (init ''python3''))) =
     [''Starting Model AI Vision application...'', ''Model AI Vision started successfully''] \<and>
   console (start_model_ai (Spawned None) (start_model_ai (Spawned None) (init ''python3''))) = []"
  by (simp add: init_def start_model_ai_def print_def popen_def Let_def)

subsection \<open>Launch failures\<close>

lemma stdout_lines_print [simp]: "stdout_lines (print x s) = stdout_lines s @ [x]"
  by (simp add: stdout_lines_def print_def)

lemma start_model_ai_fails:
  assumes "model_ai_process s = None"
  shows "model_ai_process (start_model_ai (OSError e) s) = None \<and>
         status_label (start_model_ai (OSError e) s) = ''Status: Error - '' @ e \<and>
         model_ai_button (start_model_ai (OSError e) s) = ''Model AI'' \<and>
         last (stdout_lines (start_model_ai (OSError e) s)) = ''Error starting Model AI Vision: '' @ e \<and>
         length (procs (start_model_ai (OSError e) s)) = length (procs s)"
proof -
  have 1: "settles s (if camera_running s then stop_camera s else s)" (is "settles s ?s1")
    by simp
  have 2: "settles ?s1 (if qr_reader_process ?s1 \<noteq> None then stop_qr_reader ?s1 else ?s1)"
    (is "settles _ ?s2") by simp
  have 3: "settles s ?s2" by (rule settles_trans[OF 1 2])
  have 4: "settles s (print ''Starting Model AI Vision application...''
     (?s2\<lparr>status_label := ''Status: Starting Model AI Vision...'',
         model_ai_button := ''Stop Model AI'', console := []\<rparr>))" (is "settles s ?s4")
    by (rule settles_upd[OF 3]) simp_all
  have eq: "start_model_ai (OSError e) s =
      (print (''Error starting Model AI Vision: '' @ e) ?s4)
        \<lparr>status_label := ''Status: Error - '' @ e, model_ai_button := ''Model AI'',
         model_ai_process := None\<rparr>"
    unfolding start_model_ai_def Let_def using assms by simp
  have "stdout_lines ((print (''Error starting Model AI Vision: '' @ e) ?s4)
        \<lparr>status_label := ''Status: Error - '' @ e, model_ai_button := ''Model AI'',
         model_ai_process := None\<rparr>) = stdout_lines ?s4 @ [''Error starting Model AI Vision: '' @ e]"
    by (simp add: stdout_lines_def print_def)
  moreover have "length (procs ((print (''Error starting Model AI Vision: '' @ e) ?s4)
        \<lparr>status_label := ''Status: Error - '' @ e, model_ai_button := ''Model AI'',
         model_ai_process := None\<rparr>)) = length (procs s)"
    using settles_length[OF 4] by simp
  ultimately show ?thesis unfolding eq by simp
qed

lemma start_model_ai_spawns:
  assumes "model_ai_process s = None"
  shows "model_ai_process (start_model_ai (Spawned d) s) = Some (length (procs s))"
proof -
  have 1: "settles s (if camera_running s then stop_camera s else s)" (is "settles s ?s1")
    by simp
  have 2: "settles ?s1 (if qr_reader_process ?s1 \<noteq> None then stop_qr_reader ?s1 else ?s1)"
    (is "settles _ ?s2") by simp
  have 3: "settles s ?s2" by (rule settles_trans[OF 1 2])
  have 4: "settles s (print ''Starting Model AI Vision application...''
     (?s2\<lparr>status_label := ''Status: Starting Model AI Vision...'',
         model_ai_button := ''Stop Model AI'', console := []\<rparr>))" (is "settles s ?s4")
    by (rule settles_upd[OF 3]) simp_all
  have "start_model_ai (Spawned d) s =
      (print ''Model AI Vision started successfully''
         ((snd (popen [sys_executable ?s4, model_ai_path] d ?s4))
            \<lparr>model_ai_process := Some (fst (popen [sys_executable ?s4, model_ai_path] d ?s4)),
             threads := threads (snd (popen [sys_executable ?s4, model_ai_path] d ?s4)) @
                [ModelAIDrain]\<rparr>))
        \<lparr>status_label := ''Status: Model AI Vision Running''\<rparr>"
    unfolding start_model_ai_def Let_def using assms by (simp only: split_beta) simp
  then have "model_ai_process (start_model_ai (Spawned d) s) = Some (length (procs ?s4))"
    by (simp only: popen_def) (simp add: print_def)
  with settles_length[OF 4] show ?thesis by simp
qed

lemma start_qr_reader_fails:
  assumes "qr_reader_process s = None"
  shows "qr_reader_process (start_qr_reader (OSError e) s) = None \<and>
         status_label (start_qr_reader (OSError e) s) = ''Status: Error - '' @ e \<and>
         qr_button (start_qr_reader (OSError e) s) = ''QR Reader'' \<and>
         last (stdout_lines (start_qr_reader (OSError e) s)) = ''Error starting QR Reader: '' @ e \<and>
         length (procs (start_qr_reader (OSError e) s)) = length (procs s)"
proof -
  have 1: "settles s (if camera_running s then stop_camera s else s)" (is "settles s ?s1")
    by simp
  have 2: "settles ?s1 (if model_ai_process ?s1 \<noteq> None then stop_model_ai ?s1 else ?s1)"
    (is "settles _ ?s2") by simp
  have 3: "settles s ?s2" by (rule settles_trans[OF 1 2])
  have 4: "settles s (print ''Starting QR Reader application...''
     (?s2\<lparr>status_label := ''Status: Starting QR Reader...'',
         qr_button := ''Stop QR Reader'', console := []\<rparr>))" (is "settles s ?s4")
    by (rule settles_upd[OF 3]) simp_all
  have eq: "start_qr_reader (OSError e) s =
      (print (''Error starting QR Reader: '' @ e) ?s4)
        \<lparr>status_label := ''Status: Error - '' @ e, qr_button := ''QR Reader'',
         qr_reader_process := None\<rparr>"
    unfolding start_qr_reader_def Let_def using assms by simp
  have "stdout_lines ((print (''Error starting QR Reader: '' @ e) ?s4)
        \<lparr>status_label := ''Status: Error - '' @ e, qr_button := ''QR Reader'',
         qr_reader_process := None\<rparr>) = stdout_lines ?s4 @ [''Error starting QR Reader: '' @ e]"
    by (simp add: stdout_lines_def print_def)
  moreover have "length (procs ((print (''Error starting QR Reader: '' @ e) ?s4)
        \<lparr>status_label := ''Status: Error - '' @ e, qr_button := ''QR Reader'',
         qr_reader_process := None\<rparr>)) = length (procs s)"
    using settles_length[OF 4] by simp
  ultimately show ?thesis unfolding eq by simp
qed

lemma start_qr_reader_spawns:
  assumes "qr_reader_process s = None"
  shows "qr_reader_process (start_qr_reader (Spawned d) s) = Some (length (procs s))"
proof -
  have 1: "settles s (if camera_running s then stop_camera s else s)" (is "settles s ?s1")
    by simp
  have 2: "settles ?s1 (if model_ai_process ?s1 \<noteq> None then stop_model_ai ?s1 else ?s1)"
    (is "settles _ ?s2") by simp
  have 3: "settles s ?s2" by (rule settles_trans[OF 1 2])
  have 4: "settles s (print ''Starting QR Reader application...''
     (?s2\<lparr>status_label := ''Status: Starting QR Reader...'',
         qr_button := ''Stop QR Reader'', console := []\<rparr>))" (is "settles s ?s4")
    by (rule settles_upd[OF 3]) simp_all
  have "start_qr_reader (Spawned d) s =
      (print ''QR Reader started successfully''
         ((snd (popen [sys_executable ?s4, qr_reader_path] d ?s4))
            \<lparr>qr_reader_process := Some (fst (popen [sys_executable ?s4, qr_reader_path] d ?s4)),
             threads := threads (snd (popen [sys_executable ?s4, qr_reader_path] d ?s4)) @
                [QRDrain]\<rparr>))
        \<lparr>status_label := ''Status: QR Reader Running''\<rparr>"
    unfolding start_qr_reader_def Let_def using assms by (simp only: split_beta) simp
  then have "qr_reader_process (start_qr_reader (Spawned d) s) = Some (length (procs ?s4))"
    by (simp only: popen_def) (simp add: print_def)
  with settles_length[OF 4] show ?thesis by simp
qed


lemma run_camera_thread_process:
  "CameraThread \<in> set (threads s) \<Longrightarrow>
     process (run_camera_thread (Spawned d) s) = Some (length (procs s))"
  by (simp add: run_camera_thread_def Let_def print_def popen_def)

lemma camera_launch_fails:
  assumes "\<not> camera_running s"
  shows "last (console (run_camera_thread (OSError e) (start_camera s))) =
           ''Error running camera: '' @ e \<and>
         last (after_queue (run_camera_thread (OSError e) (start_camera s))) = CameraStopped \<and>
         length (procs (run_camera_thread (OSError e) (start_camera s))) = length (procs s)"
proof -
  have t: "CameraThread \<in> set (threads (start_camera s))"
    using assms by (rule start_camera_thread)
  have "length (procs (start_camera s)) = length (procs s)"
    by (rule settles_length[OF settles_start_camera])
  with t show ?thesis by (simp add: run_camera_thread_def Let_def print_def)
qed

lemma camera_retry:
  "process (run_camera_thread (Spawned d) (start_camera (camera_stopped s))) =
     Some (length (procs s))"
proof -
  have c: "\<not> camera_running (camera_stopped s)" by (simp add: camera_stopped_def)
  have "length (procs (start_camera (camera_stopped s))) = length (procs (camera_stopped s))"
    by (rule settles_length[OF settles_start_camera])
  then have "length (procs (start_camera (camera_stopped s))) = length (procs s)"
    by (simp add: camera_stopped_def)
  with run_camera_thread_process[OF start_camera_thread[OF c], of d] show ?thesis by simp
qed

text \<open>
  Claim C4. For each task, when starting the external command fails with an OS error,
  the failure is reported with the text of the error and the slot is idle afterwards, so
  that a later start launches the task. For Model AI and the QR reader, \<open>start\<close> puts the
  error in the status label and prints it, the handle stays \<open>None\<close>, and no child is
  created. For the camera, the camera thread prints the error to the console and queues
  \<open>camera_stopped\<close>, after which the slot is idle and no child has been created.
\<close>

theorem launch_failure_reported_slot_idle:
  "(model_ai_process s = None \<longrightarrow>
      model_ai_process (start_model_ai (OSError e) s) = None \<and>
      status_label (start_model_ai (OSError e) s) = ''Status: Error - '' @ e \<and>
      last (stdout_lines (start_model_ai (OSError e) s)) =
        ''Error starting Model AI Vision: '' @ e \<and>
      length (procs (start_model_ai (OSError e) s)) = length (procs s) \<and>
      model_ai_process (start_model_ai (Spawned d) (start_model_ai (OSError e) s)) =
        Some (length (procs s))) \<and>
   (qr_reader_process s = None \<longrightarrow>
      qr_reader_process (start_qr_reader (OSError e) s) = None \<and>
      status_label (start_qr_reader (OSError e) s) = ''Status: Error - '' @ e \<and>
      last (stdout_lines (start_qr_reader (OSError e) s)) =
        ''Error starting QR Reader: '' @ e \<and>
      length (procs (start_qr_reader (OSError e) s)) = length (procs s) \<and>
      qr_reader_process (start_qr_reader (Spawned d) (start_qr_reader (OSError e) s)) =
        Some (length (procs s))) \<and>
   (\<not> camera_running s \<longrightarrow>
      last (console (run_camera_thread (OSError e) (start_camera s))) =
        ''Error running camera: '' @ e \<and>
      last (after_queue (run_camera_thread (OSError e) (start_camera s))) = CameraStopped \<and>
      length (procs (run_camera_thread (OSError e) (start_camera s))) = length (procs s) \<and>
      \<not> camera_running (camera_stopped (run_camera_thread (OSError e) (start_camera s))) \<and>
      process (camera_stopped (run_camera_thread (OSError e) (start_camera s))) = None \<and>
      process (run_camera_thread (Spawned d)
        (start_camera (camera_stopped (run_camera_thread (OSError e) (start_camera s))))) =
        Some (length (procs s)))"
proof (intro conjI impI)
  assume m: "model_ai_process s = None"
  note f = start_model_ai_fails[OF m, of e]
  from f show "model_ai_process (start_model_ai (OSError e) s) = None" by simp
  from f show "status_label (start_model_ai (OSError e) s) = ''Status: Error - '' @ e" by simp
  from f show "last (stdout_lines (start_model_ai (OSError e) s)) =
        ''Error starting Model AI Vision: '' @ e" by simp
  from f show "length (procs (start_model_ai (OSError e) s)) = length (procs s)" by simp
  from f start_model_ai_spawns[of "start_model_ai (OSError e) s" d]
  show "model_ai_process (start_model_ai (Spawned d) (start_model_ai (OSError e) s)) =
        Some (length (procs s))" by simp
next
  assume q: "qr_reader_process s = None"
  note f = start_qr_reader_fails[OF q, of e]
  from f show "qr_reader_process (start_qr_reader (OSError e) s) = None" by simp
  from f show "status_label (start_qr_reader (OSError e) s) = ''Status: Error - '' @ e" by simp
  from f show "last (stdout_lines (start_qr_reader (OSError e) s)) =
        ''Error starting QR Reader: '' @ e" by simp
  from f show "length (procs (start_qr_reader (OSError e) s)) = length (procs s)" by simp
  from f start_qr_reader_spawns[of "start_qr_reader (OSError e) s" d]
  show "qr_reader_process (start_qr_reader (Spawned d) (start_qr_reader (OSError e) s)) =
        Some (length (procs s))" by simp
next
  assume c: "\<not> camera_running s"
  note f = camera_launch_fails[OF c, of e]
  from f show "last (console (run_camera_thread (OSError e) (start_camera s))) =
        ''Error running camera: '' @ e" by simp
  from f show "last (after_queue (run_camera_thread (OSError e) (start_camera s))) = CameraStopped"
    by simp
  from f show "length (procs (run_camera_thread (OSError e) (start_camera s))) = length (procs s)"
    by simp
  show "\<not> camera_running (camera_stopped (run_camera_thread (OSError e) (start_camera s)))"
    by (simp add: camera_stopped_def)
  show "process (camera_stopped (run_camera_thread (OSError e) (start_camera s))) = None"
    by (simp add: camera_stopped_def)
  from f camera_retry[of d "run_camera_thread (OSError e) (start_camera s)"]
  show "process (run_camera_thread (Spawned d)
        (start_camera (camera_stopped (run_camera_thread (OSError e) (start_camera s))))) =
        Some (length (procs s))" by simp
qed

text \<open>From the initial state: a failed launch of each task, then a successful retry.\<close>

theorem launch_failure_reported_slot_idle_witness:
  "status_label (start_model_ai (OSError ''No such file'') (init ''python3'')) =
     ''Status: Error - No such file'' \<and>
   model_ai_process (start_model_ai (Spawned None)
     (start_model_ai (OSError ''No such file'') (init ''python3''))) = Some 0 \<and>
   status_label (start_qr_reader (OSError ''No such file'') (init ''python3'')) =
     ''Status: Error - No such file'' \<and>
   qr_reader_process (start_qr_reader (Spawned None)
     (start_qr_reader (OSError ''No such file'') (init ''python3''))) = Some 0 \<and>
   last (console (run_camera_thread (OSError ''No such file'') (start_camera (init ''python3'')))) =
     ''Error running camera: No such file'' \<and>
   process (run_camera_thread (Spawned None) (start_camera (camera_stopped
     (run_camera_thread (OSError ''No such file'') (start_camera (init ''python3'')))))) = Some 0"
proof -
  have "model_ai_process (init ''python3'') = None"
    "qr_reader_process (init ''python3'') = None"
    "\<not> camera_running (init ''python3'')"
    "length (procs (init ''python3'')) = 0"
    by (simp_all add: init_def)
  with launch_failure_reported_slot_idle[of "init ''python3''" "''No such file''" None]
  show ?thesis by simp
qed

subsection \<open>The Model AI drain\<close>

lemma update_proc_print: "update_proc p f (print x s) = print x (update_proc p f s)"
  by (simp add: update_proc_def print_def)

lemma update_proc_twice:
  "update_proc p f (update_proc p g s) = update_proc p (\<lambda>c. f (g c)) s"
  by (cases "p < length (procs s)") (simp_all add: update_proc_def list_update_beyond)

lemma update_proc_id: "f (procs s ! p) = procs s ! p \<Longrightarrow> update_proc p f s = s"
  by (simp add: update_proc_def)



lemma stdout_lines_upd [simp]:
  "stdout_lines (s\<lparr>after_queue := a\<rparr>) = stdout_lines s"
  "stdout_lines (s\<lparr>threads := t\<rparr>) = stdout_lines s"
  "stdout_lines (s\<lparr>model_ai_process := m\<rparr>) = stdout_lines s"
  "stdout_lines (s\<lparr>qr_reader_process := m\<rparr>) = stdout_lines s"
  "stdout_lines (s\<lparr>model_ai_button := b\<rparr>) = stdout_lines s"
  "stdout_lines (s\<lparr>qr_button := b\<rparr>) = stdout_lines s"
  "stdout_lines (s\<lparr>status_label := l\<rparr>) = stdout_lines s"
  by (simp_all add: stdout_lines_def)

lemma print_fields [simp]:
  "model_ai_process (print x s) = model_ai_process s"
  "qr_reader_process (print x s) = qr_reader_process s"
  "model_ai_button (print x s) = model_ai_button s"
  "qr_button (print x s) = qr_button s"
  "status_label (print x s) = status_label s"
  "after_queue (print x s) = after_queue s"
  "threads (print x s) = threads s"
  by (simp_all add: print_def)

lemma print_all_fields [simp]:
  "stdout_lines (print_all xs s) = stdout_lines s @ xs"
  "procs (print_all xs s) = procs s"
  "model_ai_process (print_all xs s) = model_ai_process s"
  "qr_reader_process (print_all xs s) = qr_reader_process s"
  "after_queue (print_all xs s) = after_queue s"
  "threads (print_all xs s) = threads s"
  by (induction xs arbitrary: s) (simp_all add: print_all_def print_def stdout_lines_def)

lemma update_proc_fields [simp]:
  "stdout_lines (update_proc p f s) = stdout_lines s"
  "model_ai_process (update_proc p f s) = model_ai_process s"
  "qr_reader_process (update_proc p f s) = qr_reader_process s"
  "after_queue (update_proc p f s) = after_queue s"
  "threads (update_proc p f s) = threads s"
  by (simp_all add: update_proc_def stdout_lines_def)

lemma poll_update_unread [simp]:
  "poll q (update_proc p (\<lambda>c. c\<lparr>unread := u\<rparr>) s) = poll q s"
  by (cases "p < length (procs s)"; cases "q = p")
     (simp_all add: poll_def update_proc_def list_update_beyond)

lemma poll_print_all [simp]: "poll q (print_all xs s) = poll q s"
  by (simp add: poll_def)








subsection \<open>Stopping and the drain thread\<close>








subsection \<open>The QR reader drain\<close>

lemma read_qr_reader_loop_drains:
  assumes "qr_reader_process s = Some p" "p < length (procs s)" "unread (procs s ! p) = ls"
    "[] \<notin> set ls" "poll p s = Some rc"
  shows "read_qr_reader_loop s =
     Some (print_all (map (\<lambda>l. ''QR Reader: '' @ strip l) ls)
             (update_proc p (\<lambda>c. c\<lparr>unread := []\<rparr>) s))"
  using assms
proof (induction ls arbitrary: s)
  case Nil
  then have "update_proc p (\<lambda>c. c\<lparr>unread := []\<rparr>) s = s"
    by (intro update_proc_id) simp
  with Nil show ?case
    by (subst read_qr_reader_loop.simps) (simp add: readline_def print_all_def)
next
  case (Cons l ls)
  let ?s1 = "update_proc p (\<lambda>c. c\<lparr>unread := ls\<rparr>) s"
  let ?s2 = "print (''QR Reader: '' @ strip l) ?s1"
  from Cons.prems have l: "l \<noteq> []" by auto
  have step: "read_qr_reader_loop s = read_qr_reader_loop ?s2"
    using Cons.prems l by (subst read_qr_reader_loop.simps) (simp add: readline_def)
  have "read_qr_reader_loop ?s2 =
     Some (print_all (map (\<lambda>l. ''QR Reader: '' @ strip l) ls)
             (update_proc p (\<lambda>c. c\<lparr>unread := []\<rparr>) ?s2))"
    using Cons.prems by (intro Cons.IH) (simp_all add: print_def update_proc_def poll_def)
  moreover have "update_proc p (\<lambda>c. c\<lparr>unread := []\<rparr>) ?s2 =
      print (''QR Reader: '' @ strip l) (update_proc p (\<lambda>c. c\<lparr>unread := []\<rparr>) s)"
    by (simp add: update_proc_print update_proc_twice)
  ultimately show ?case using step by (simp add: print_all_def)
qed


lemma qr_drain_forwards_lines_then_slot_idle:
  assumes "qr_reader_process s = Some p" "p < length (procs s)" "unread (procs s ! p) = ls"
    "[] \<notin> set ls" "poll p s = Some rc"
  shows "let s' = (print_all (map (\<lambda>l. ''QR Reader: '' @ strip l) ls)
                     (update_proc p (\<lambda>c. c\<lparr>unread := []\<rparr>) s))
                  \<lparr>after_queue := after_queue s @ [QRReaderStopped],
                   threads := remove1 QRDrain (threads s)\<rparr>
         in read_qr_reader_output s = Some s' \<and>
            stdout_lines s' = stdout_lines s @ map (\<lambda>l. ''QR Reader: '' @ strip l) ls \<and>
            unread (procs s' ! p) = [] \<and>
            qr_reader_process (qr_reader_stopped s') = None \<and>
            qr_button (qr_reader_stopped s') = ''QR Reader'' \<and>
            status_label (qr_reader_stopped s') =
              ''Status: QR Reader Exited (code: '' @ str_int rc @ '')'' \<and>
            stdout_lines (qr_reader_stopped s') =
              stdout_lines s' @ [''QR Reader process ended with code: '' @ str_int rc]"
proof -
  let ?d = "print_all (map (\<lambda>l. ''QR Reader: '' @ strip l) ls)
              (update_proc p (\<lambda>c. c\<lparr>unread := []\<rparr>) s)"
  let ?s' = "?d\<lparr>after_queue := after_queue s @ [QRReaderStopped],
                threads := remove1 QRDrain (threads s)\<rparr>"
  have loop: "read_qr_reader_loop s = Some ?d" by (rule read_qr_reader_loop_drains[OF assms])
  have m: "qr_reader_process ?d = Some p" using assms(1) by simp
  have pl: "poll p ?d = Some rc" using assms(5) by simp
  have out: "read_qr_reader_output s = Some ?s'"
    by (simp add: read_qr_reader_output_def loop assms(1) assms(5))
  have lines: "stdout_lines ?s' = stdout_lines s @ map (\<lambda>l. ''QR Reader: '' @ strip l) ls"
    by simp
  have un: "unread (procs ?s' ! p) = []" using assms(2) by (simp add: update_proc_def)
  have m': "qr_reader_process ?s' = Some p" using assms(1) by simp
  have pl': "poll p ?s' = Some rc" using pl by (simp add: poll_def)
  have st: "qr_reader_process (qr_reader_stopped ?s') = None"
    "qr_button (qr_reader_stopped ?s') = ''QR Reader''"
    "status_label (qr_reader_stopped ?s') =
       ''Status: QR Reader Exited (code: '' @ str_int rc @ '')''"
    "stdout_lines (qr_reader_stopped ?s') =
       stdout_lines ?s' @ [''QR Reader process ended with code: '' @ str_int rc]"
    using m' pl' by (simp_all add: qr_reader_stopped_def Let_def str_returncode_def)
  from out lines un st show ?thesis unfolding Let_def by (intro conjI)
qed



subsection \<open>Stopping Model AI and the QR reader\<close>

text \<open>After \<open>stop_model_ai\<close> and \<open>stop_qr_reader\<close> the child of the slot has ended: it reacted to
  \<^verbatim>\<open>SIGTERM\<close> in time, or it was killed.\<close>

lemma stop_model_ai_ends_child:
  "model_ai_process s = Some p \<Longrightarrow> p < length (procs s) \<Longrightarrow>
     poll p (stop_model_ai s) \<noteq> None"
  by (simp add: stop_model_ai_def Let_def terminate_def kill_def wait_timeout_def poll_def
      update_proc_def print_def)

lemma stop_qr_reader_ends_child:
  "qr_reader_process s = Some p \<Longrightarrow> p < length (procs s) \<Longrightarrow>
     poll p (stop_qr_reader s) \<noteq> None"
  by (simp add: stop_qr_reader_def Let_def terminate_def kill_def wait_timeout_def poll_def
      update_proc_def print_def)

end
